theory Spec2Isabelle
  imports Complex_Main "HOL-Library.Word" "HOL-Library.AList" "HOL-Library.Sublist"
begin

unbundle bit_operations_syntax

section \<open>Library functions the client calls\<close>

text \<open>
  The client signs with \<^verbatim>\<open>hmac.new(key, msg, hashlib.sha256).digest()\<close> and
  \<^verbatim>\<open>base64.b64encode\<close> from the Python standard library. They are written here as
  the standards define them (FIPS 180-4 for SHA-256, RFC 2104 for HMAC, RFC 4648 for
  Base64), on lists of bytes, so that a signature can be computed on concrete input.
\<close>

subsection \<open>SHA-256 and HMAC\<close>

type_synonym byte = "8 word"
type_synonym w32 = "32 word"

definition rotr :: "nat \<Rightarrow> w32 \<Rightarrow> w32" where
  "rotr n x = (drop_bit n x) OR (push_bit (32 - n) x)"

definition Ch :: "w32 \<Rightarrow> w32 \<Rightarrow> w32 \<Rightarrow> w32" where
  "Ch x y z = (x AND y) XOR (NOT x AND z)"

definition Maj :: "w32 \<Rightarrow> w32 \<Rightarrow> w32 \<Rightarrow> w32" where
  "Maj x y z = (x AND y) XOR (x AND z) XOR (y AND z)"

definition Sigma0 :: "w32 \<Rightarrow> w32" where
  "Sigma0 x = rotr 2 x XOR rotr 13 x XOR rotr 22 x"

definition Sigma1 :: "w32 \<Rightarrow> w32" where
  "Sigma1 x = rotr 6 x XOR rotr 11 x XOR rotr 25 x"

definition sigma0 :: "w32 \<Rightarrow> w32" where
  "sigma0 x = rotr 7 x XOR rotr 18 x XOR drop_bit 3 x"

definition sigma1 :: "w32 \<Rightarrow> w32" where
  "sigma1 x = rotr 17 x XOR rotr 19 x XOR drop_bit 10 x"

definition sha256_K :: "w32 list" where
  "sha256_K = [
   1116352408, 1899447441, 3049323471, 3921009573, 961987163, 1508970993, 2453635748, 2870763221,
   3624381080, 310598401, 607225278, 1426881987, 1925078388, 2162078206, 2614888103, 3248222580,
   3835390401, 4022224774, 264347078, 604807628, 770255983, 1249150122, 1555081692, 1996064986,
   2554220882, 2821834349, 2952996808, 3210313671, 3336571891, 3584528711, 113926993, 338241895,
   666307205, 773529912, 1294757372, 1396182291, 1695183700, 1986661051, 2177026350, 2456956037,
   2730485921, 2820302411, 3259730800, 3345764771, 3516065817, 3600352804, 4094571909, 275423344,
   430227734, 506948616, 659060556, 883997877, 958139571, 1322822218, 1537002063, 1747873779,
   1955562222, 2024104815, 2227730452, 2361852424, 2428436474, 2756734187, 3204031479, 3329325298]"

definition sha256_H0 :: "w32 list" where
  "sha256_H0 = [1779033703, 3144134277, 1013904242, 2773480762,
                1359893119, 2600822924, 528734635, 1541459225]"

text \<open>Big-endian conversions.\<close>

fun be_word :: "byte list \<Rightarrow> w32" where
  "be_word bs = foldl (\<lambda>acc b. push_bit 8 acc OR ucast b) 0 bs"

definition word_bytes :: "w32 \<Rightarrow> byte list" where
  "word_bytes w = [ucast (drop_bit 24 w), ucast (drop_bit 16 w), ucast (drop_bit 8 w), ucast w]"

definition len_bytes :: "nat \<Rightarrow> byte list" where
  "len_bytes n = (let l = (word_of_nat n :: 64 word) in
     map (\<lambda>i. ucast (drop_bit (8 * (7 - i)) l)) [0..<8])"

definition sha256_pad :: "byte list \<Rightarrow> byte list" where
  "sha256_pad m = m @ [0x80] @ replicate ((119 - length m mod 64) mod 64) 0 @ len_bytes (8 * length m)"

fun chunks :: "nat \<Rightarrow> 'a list \<Rightarrow> 'a list list" where
  "chunks n [] = []"
| "chunks n (x # xs) = (if n = 0 then [] else take n (x # xs) # chunks n (drop n (x # xs)))"

fun schedule :: "nat \<Rightarrow> w32 list \<Rightarrow> w32 list" where
  "schedule 0 ws = ws"
| "schedule (Suc k) ws =
     (let t = length ws in
      schedule k (ws @ [sigma1 (ws ! (t - 2)) + ws ! (t - 7) + sigma0 (ws ! (t - 15)) + ws ! (t - 16)]))"

fun sha256_round :: "w32 list \<Rightarrow> w32 \<times> w32 \<Rightarrow> w32 list" where
  "sha256_round [a, b, c, d, e, f, g, h] (k, w) =
     (let t1 = h + Sigma1 e + Ch e f g + k + w;
          t2 = Sigma0 a + Maj a b c
      in [t1 + t2, a, b, c, d + t1, e, f, g])"
| "sha256_round s _ = s"

definition sha256_compress :: "w32 list \<Rightarrow> byte list \<Rightarrow> w32 list" where
  "sha256_compress hs block =
     (let ws = schedule 48 (map be_word (chunks 4 block))
      in map2 (+) hs (foldl sha256_round hs (zip sha256_K ws)))"

definition sha256 :: "byte list \<Rightarrow> byte list" where
  "sha256 m = concat (map word_bytes (foldl sha256_compress sha256_H0 (chunks 64 (sha256_pad m))))"

definition hmac_sha256 :: "byte list \<Rightarrow> byte list \<Rightarrow> byte list" where
  "hmac_sha256 key msg =
     (let k0 = (if length key > 64 then sha256 key else key);
          k = k0 @ replicate (64 - length k0) 0
      in sha256 (map (\<lambda>b. b XOR 0x5c) k @ sha256 (map (\<lambda>b. b XOR 0x36) k @ msg)))"


subsection \<open>Base64 and UTF-8\<close>

text \<open>
  \<^verbatim>\<open>b64encode\<close> returns the Base64 text; the model keeps it as a string of the
  alphabet's characters. A Python string is modelled as the list of its code points,
  for the code points below 256 that \<^typ>\<open>char\<close> holds; \<open>utf8_encode\<close> is
  \<^verbatim>\<open>str.encode("utf-8")\<close> on them: one byte below 128, two bytes from 128 on.
\<close>

definition b64_alphabet :: string where
  "b64_alphabet = ''ABCDEFGHIJKLMNOPQRSTUVWXYZabcdefghijklmnopqrstuvwxyz0123456789+/''"

definition b64_char :: "nat \<Rightarrow> char" where
  "b64_char n = b64_alphabet ! n"

fun b64encode :: "byte list \<Rightarrow> string" where
  "b64encode [] = []"
| "b64encode [a] =
     (let n = unat a in [b64_char (n div 4), b64_char (n mod 4 * 16), CHR ''='', CHR ''=''])"
| "b64encode [a, b] =
     (let n = unat a * 256 + unat b
      in [b64_char (n div 1024), b64_char (n div 16 mod 64), b64_char (n mod 16 * 4), CHR ''=''])"
| "b64encode (a # b # c # rest) =
     (let n = unat a * 65536 + unat b * 256 + unat c
      in [b64_char (n div 262144), b64_char (n div 4096 mod 64), b64_char (n div 64 mod 64),
          b64_char (n mod 64)] @ b64encode rest)"

definition utf8_char :: "char \<Rightarrow> byte list" where
  "utf8_char c = (let n = (of_char c :: nat) in
     if n < 128 then [word_of_nat n] else [word_of_nat (192 + n div 64), word_of_nat (128 + n mod 64)])"

definition utf8_encode :: "string \<Rightarrow> byte list" where
  "utf8_encode s = concat (map utf8_char s)"

section \<open>Python values and mappings\<close>

text \<open>
  Request parameters are mappings from string keys to scalar values, strings and integers.
  A \<^verbatim>\<open>dict\<close> keeps its keys in insertion order, and the signature depends on that
  order, so a mapping is an association list: \<open>AList.update\<close> is
  \<^verbatim>\<open>d[k] = v\<close> (an existing key keeps its place, a new key goes last).
\<close>

datatype scalar = SStr string | SInt int

type_synonym pydict = "(string \<times> scalar) list"

definition digit_char :: "nat \<Rightarrow> char" where
  "digit_char n = char_of (48 + n)"

fun str_nat :: "nat \<Rightarrow> string" where
  "str_nat n = (if n < 10 then [digit_char n] else str_nat (n div 10) @ [digit_char (n mod 10)])"

declare str_nat.simps [simp del]

definition str_int :: "int \<Rightarrow> string" where
  \<comment> \<open>\<^verbatim>\<open>str(i)\<close> of a Python integer\<close>
  "str_int i = (if i < 0 then CHR ''-'' # str_nat (nat (- i)) else str_nat (nat i))"

fun py_format :: "scalar \<Rightarrow> string" where
  \<comment> \<open>\<^verbatim>\<open>"{}".format(v)\<close> and \<^verbatim>\<open>"%s" % v\<close>\<close>
  "py_format (SStr s) = s"
| "py_format (SInt i) = str_int i"

fun join :: "string \<Rightarrow> string list \<Rightarrow> string" where
  \<comment> \<open>\<^verbatim>\<open>sep.join(xs)\<close>\<close>
  "join sep [] = []"
| "join sep [x] = x"
| "join sep (x # y # ys) = x @ sep @ join sep (y # ys)"

definition dict_literal :: "(string \<times> scalar) list \<Rightarrow> pydict" where
  \<comment> \<open>\<^verbatim>\<open>{k1: v1, k2: v2, ...}\<close>: the entries are stored from left to right\<close>
  "dict_literal kvs = foldl (\<lambda>d (k, v). AList.update k v d) [] kvs"

section \<open>The client\<close>

datatype API_TYPE = ORDER | USER | QUOTE

definition API_URL :: string where "API_URL = ''https://api.sfex.net''"
definition API_ORDER :: string where "API_ORDER = ''order''"
definition API_USER :: string where "API_USER = ''balance''"
definition API_QUOTE :: string where "API_QUOTE = ''https://q.sfex.net/v1''"

text \<open>
  A keyword argument of a request is \<^verbatim>\<open>None\<close>, a scalar, or a reference to a mapping
  in the store. The keyword arguments of one call are a fresh \<^verbatim>\<open>dict\<close> of their own.
\<close>

type_synonym addr = nat

datatype kwarg = KNone | KVal scalar | KDict addr

type_synonym kwargs = "(string \<times> kwarg) list"

record client =
  API_KEY :: string
  API_SECRET :: string
  session_headers :: pydict
  requests_params :: "kwargs option"

subsection \<open>URI builder\<close>

fun create_api_uri :: "string \<Rightarrow> API_TYPE \<Rightarrow> string" where
  "create_api_uri path ORDER = API_URL @ ''/'' @ API_ORDER @ ''/'' @ path"
| "create_api_uri path USER = API_URL @ ''/'' @ API_USER @ ''/'' @ path"
| "create_api_uri path QUOTE = API_QUOTE @ ''/'' @ path"

subsection \<open>Signer\<close>

fun order_params_loop :: "pydict \<Rightarrow> (string \<times> scalar) list \<Rightarrow> (string \<times> scalar) list" where
  "order_params_loop [] params = params"
| "order_params_loop ((key, val) # items) params = order_params_loop items (params @ [(key, val)])"

definition order_params :: "pydict \<Rightarrow> (string \<times> scalar) list" where
  "order_params data = order_params_loop data []"

definition query_string :: "pydict \<Rightarrow> string" where
  \<comment> \<open>the local \<^verbatim>\<open>query_string\<close> of \<^verbatim>\<open>_generate_signature\<close>\<close>
  "query_string data =
     join ''&'' (map (\<lambda>d. py_format (SStr (fst d)) @ ''='' @ py_format (snd d)) (order_params data))"

definition generate_signature :: "client \<Rightarrow> pydict \<Rightarrow> string" where
  "generate_signature c data =
     b64encode (hmac_sha256 (utf8_encode (API_SECRET c)) (utf8_encode (query_string data)))"

subsection \<open>Store, client state and the wire\<close>

text \<open>
  Mappings are mutable objects that the caller, the client's default parameters and the
  keyword arguments of a call may share, so they live in a store of addresses.
  \<open>self\<close> is the client object, \<open>wire\<close> the calls handed to the HTTP session, in order.
\<close>

record http_call =
  call_method :: string
  call_uri :: string
  call_kwargs :: kwargs
  call_store :: "addr \<Rightarrow> pydict"

record state =
  self :: client
  heap :: "addr \<Rightarrow> pydict"
  next_addr :: addr
  wire :: "http_call list"

datatype json = JNull | JBool bool | JNum int | JStr string | JArr "json list"
  | JObj "(string \<times> json) list"

text \<open>
  \<^verbatim>\<open>response.json()\<close> returns the parsed body or raises \<^verbatim>\<open>ValueError\<close>
  (on an empty body, or one that is not JSON).
\<close>

datatype json_outcome = Parsed json | ValueError

record response =
  status_code :: int
  json_body :: json_outcome

datatype transport_error = Timeout | ConnectionError

text \<open>
  What a call depends on outside the program: \<^verbatim>\<open>time.time()\<close> (a float is a
  rational number) and what the session returns or raises for a call.
\<close>

record env =
  clock :: rat
  network :: "http_call \<Rightarrow> transport_error + response"

definition init_session :: pydict where
  "init_session = dict_literal [(''Accept'', SStr ''application/json''),
     (''Content-Type'', SStr ''application/x-www-form-urlencoded'')]"

definition init :: "string \<Rightarrow> string \<Rightarrow> kwargs option \<Rightarrow> client" where
  "init api_key api_secret rp =
     \<lparr>API_KEY = api_key, API_SECRET = api_secret, session_headers = init_session,
      requests_params = rp\<rparr>"

definition new_dict :: "pydict \<Rightarrow> state \<Rightarrow> addr \<times> state" where
  \<comment> \<open>a dict display: a new object at the next free address\<close>
  "new_dict d st =
     (next_addr st, st\<lparr>heap := (heap st)(next_addr st := d), next_addr := Suc (next_addr st)\<rparr>)"

definition dict_setitem :: "addr \<Rightarrow> string \<Rightarrow> scalar \<Rightarrow> state \<Rightarrow> state" where
  \<comment> \<open>\<^verbatim>\<open>obj[k] = v\<close> on the object at address \<open>a\<close>\<close>
  "dict_setitem a k v st = st\<lparr>heap := (heap st)(a := AList.update k v (heap st a))\<rparr>"

definition kwargs_get :: "kwargs \<Rightarrow> string \<Rightarrow> kwarg" where
  \<comment> \<open>\<^verbatim>\<open>kwargs.get(k, None)\<close>\<close>
  "kwargs_get kw k = (case map_of kw k of None \<Rightarrow> KNone | Some v \<Rightarrow> v)"

definition kwargs_update :: "kwargs \<Rightarrow> kwargs \<Rightarrow> kwargs" where
  \<comment> \<open>\<^verbatim>\<open>kwargs.update(other)\<close>\<close>
  "kwargs_update kw other = foldl (\<lambda>d (k, v). AList.update k v d) kw other"

definition normalize_arg :: "kwarg \<Rightarrow> state \<Rightarrow> addr \<times> state" where
  \<comment> \<open>\<^verbatim>\<open>if x and isinstance(x, dict): kwargs[k] = x else: kwargs[k] = {}\<close>;
      an empty mapping is falsy\<close>
  "normalize_arg v st =
     (case v of
        KDict a \<Rightarrow> if heap st a \<noteq> [] then (a, st) else new_dict [] st
      | _ \<Rightarrow> new_dict [] st)"

definition py_round :: "rat \<Rightarrow> int" where
  \<comment> \<open>\<^verbatim>\<open>int(round(x))\<close>: to the nearest integer, a tie to the even one\<close>
  "py_round x =
     (let f = \<lfloor>x\<rfloor>; d = x - of_int f
      in if d < 1 / 2 then f else if 1 / 2 < d then f + 1 else if even f then f else f + 1)"

subsection \<open>Request dispatcher\<close>

text \<open>
  \<open>request_prepare\<close> is \<^verbatim>\<open>_request\<close> up to the call of the session: it returns
  the URI and the keyword arguments of that call. \<open>request\<close> is the whole method.
\<close>

definition request_prepare ::
  "string \<Rightarrow> API_TYPE \<Rightarrow> bool \<Rightarrow> kwargs \<Rightarrow> rat \<Rightarrow> state \<Rightarrow> (string \<times> kwargs) \<times> state" where
  "request_prepare path api_type sgnd kw now st =
     (let uri = create_api_uri path api_type;
          kw1 = AList.update ''timeout'' (KVal (SInt 10)) kw;
          kw2 = (case requests_params (self st) of
                   None \<Rightarrow> kw1
                 | Some rp \<Rightarrow> if rp \<noteq> [] then kwargs_update kw1 rp else kw1);
          (d, st1) = normalize_arg (kwargs_get kw2 ''data'') st;
          kw3 = AList.update ''data'' (KDict d) kw2;
          (p, st2) = normalize_arg (kwargs_get kw3 ''params'') st1;
          kw4 = AList.update ''params'' (KDict p) kw3;
          (h, st3) = new_dict [] st2;
          kw5 = AList.update ''headers'' (KDict h) kw4;
          st4 = dict_setitem h ''version'' (SStr ''2.4'') st3;
          st5 = (if sgnd then
                   (let sa = dict_setitem d ''nonce'' (SInt (py_round now)) st4;
                        sb = dict_setitem h ''key'' (SStr (API_KEY (self sa))) sa
                    in dict_setitem h ''sign''
                         (SStr (generate_signature (self sb) (heap sb d))) sb)
                 else st4)
      in ((uri, kw5), st5))"

definition startswith :: "string \<Rightarrow> string \<Rightarrow> bool" where
  "startswith s p = (take (length p) s = p)"

definition handle_response :: "response \<Rightarrow> json" where
  \<comment> \<open>a bare \<^verbatim>\<open>return\<close> gives \<^verbatim>\<open>None\<close>, which is \<open>JNull\<close>\<close>
  "handle_response r =
     (if \<not> startswith (str_int (status_code r)) ''2'' then JNull
      else (case json_body r of Parsed res \<Rightarrow> res | ValueError \<Rightarrow> JNull))"

definition request ::
  "string \<Rightarrow> string \<Rightarrow> API_TYPE \<Rightarrow> bool \<Rightarrow> kwargs \<Rightarrow> env \<Rightarrow> state
     \<Rightarrow> (transport_error + json) \<times> state" where
  "request meth path api_type sgnd kw e st =
     (let ((uri, kw'), st1) = request_prepare path api_type sgnd kw (clock e) st;
          call = \<lparr>call_method = meth, call_uri = uri, call_kwargs = kw', call_store = heap st1\<rparr>;
          st2 = st1\<lparr>wire := wire st1 @ [call]\<rparr>
      in (case network e call of
            Inl err \<Rightarrow> (Inl err, st2)
          | Inr resp \<Rightarrow> (Inr (handle_response resp), st2)))"

definition get ::
  "string \<Rightarrow> API_TYPE \<Rightarrow> bool \<Rightarrow> kwargs \<Rightarrow> env \<Rightarrow> state \<Rightarrow> (transport_error + json) \<times> state" where
  "get path api_type sgnd kw = request ''get'' path api_type sgnd kw"

definition post ::
  "string \<Rightarrow> API_TYPE \<Rightarrow> bool \<Rightarrow> kwargs \<Rightarrow> env \<Rightarrow> state \<Rightarrow> (transport_error + json) \<times> state" where
  "post path api_type sgnd kw = request ''post'' path api_type sgnd kw"

definition put ::
  "string \<Rightarrow> API_TYPE \<Rightarrow> bool \<Rightarrow> kwargs \<Rightarrow> env \<Rightarrow> state \<Rightarrow> (transport_error + json) \<times> state" where
  "put path api_type sgnd kw = request ''put'' path api_type sgnd kw"

definition delete ::
  "string \<Rightarrow> API_TYPE \<Rightarrow> bool \<Rightarrow> kwargs \<Rightarrow> env \<Rightarrow> state \<Rightarrow> (transport_error + json) \<times> state" where
  "delete path api_type sgnd kw = request ''delete'' path api_type sgnd kw"

subsection \<open>Endpoint methods\<close>

text \<open>
  Where a method leaves \<^verbatim>\<open>type\<close> or \<^verbatim>\<open>signed\<close> out, the defaults
  \<^verbatim>\<open>API_TYPE.ORDER\<close> and \<^verbatim>\<open>False\<close> are written in.
\<close>

definition create_order ::
  "scalar \<Rightarrow> scalar \<Rightarrow> scalar \<Rightarrow> scalar \<Rightarrow> env \<Rightarrow> state \<Rightarrow> (transport_error + json) \<times> state" where
  "create_order symbol side price amount e st =
     (let (params, st1) = new_dict (dict_literal [(''symbol'', symbol), (''side'', side),
            (''type'', SInt 1), (''price'', price), (''amount'', amount)]) st
      in post ''create'' ORDER True [(''data'', KDict params)] e st1)"

definition get_ticker :: "scalar \<Rightarrow> env \<Rightarrow> state \<Rightarrow> (transport_error + json) \<times> state" where
  "get_ticker symbol e st =
     (let (params, st1) = new_dict (dict_literal []) st;
          path = ''ticker/'' @ py_format symbol
      in get path QUOTE False [(''data'', KDict params)] e st1)"

definition get_depth :: "scalar \<Rightarrow> env \<Rightarrow> state \<Rightarrow> (transport_error + json) \<times> state" where
  "get_depth symbol e st =
     (let (params, st1) = new_dict (dict_literal [(''offset'', SInt 10), (''accuracy'', SInt 5),
            (''size'', SInt 5)]) st;
          path = ''orderbook/'' @ py_format symbol
      in get path QUOTE False [(''data'', KDict params)] e st1)"

definition get_user_balance :: "env \<Rightarrow> state \<Rightarrow> (transport_error + json) \<times> state" where
  "get_user_balance e st =
     (let (params, st1) = new_dict (dict_literal []) st
      in post ''list'' USER True [(''data'', KDict params)] e st1)"

definition create_buy_order ::
  "scalar \<Rightarrow> scalar \<Rightarrow> scalar \<Rightarrow> env \<Rightarrow> state \<Rightarrow> (transport_error + json) \<times> state" where
  "create_buy_order symbol price amount = create_order symbol (SInt 1) price amount"

definition create_sell_order ::
  "scalar \<Rightarrow> scalar \<Rightarrow> scalar \<Rightarrow> env \<Rightarrow> state \<Rightarrow> (transport_error + json) \<times> state" where
  "create_sell_order symbol price amount = create_order symbol (SInt 2) price amount"

definition get_history_orders ::
  "scalar \<Rightarrow> scalar \<Rightarrow> env \<Rightarrow> state \<Rightarrow> (transport_error + json) \<times> state" where
  "get_history_orders page size' e st =
     (let (params, st1) = new_dict (dict_literal [(''page'', page), (''size'', size')]) st
      in post ''history'' ORDER True [(''data'', KDict params)] e st1)"

definition cancel_order ::
  "scalar \<Rightarrow> scalar \<Rightarrow> env \<Rightarrow> state \<Rightarrow> (transport_error + json) \<times> state" where
  "cancel_order symbol order_id e st =
     (let (params, st1) = new_dict (dict_literal [(''symbol'', symbol), (''order_id'', order_id)]) st
      in post ''remove'' ORDER True [(''data'', KDict params)] e st1)"

definition get_open_orders ::
  "scalar \<Rightarrow> scalar \<Rightarrow> scalar \<Rightarrow> env \<Rightarrow> state \<Rightarrow> (transport_error + json) \<times> state" where
  "get_open_orders symbol page size' e st =
     (let (params, st1) = new_dict (dict_literal [(''symbol'', symbol), (''page'', page),
            (''size'', size')]) st
      in post ''active'' ORDER True [(''data'', KDict params)] e st1)"

subsection \<open>The specification's own notions\<close>

text \<open>The signature as the specification words it, for comparison with the code.\<close>

fun spec_canonical_string :: "(string \<times> scalar) list \<Rightarrow> string" where
  "spec_canonical_string [] = []"
| "spec_canonical_string ((k, v) # rest) =
     k @ ''='' @ py_format v @ (if rest = [] then [] else ''&'' @ spec_canonical_string rest)"

definition spec_signature :: "string \<Rightarrow> (string \<times> scalar) list \<Rightarrow> string" where
  "spec_signature secret pairs =
     b64encode (hmac_sha256 (utf8_encode secret) (utf8_encode (spec_canonical_string pairs)))"

text \<open>The first decimal digit of a status code, as the specification words the decoder's test.\<close>

fun first_decimal_digit :: "nat \<Rightarrow> nat" where
  "first_decimal_digit n = (if n < 10 then n else first_decimal_digit (n div 10))"

declare first_decimal_digit.simps [simp del]

subsection \<open>Notions for stating the properties of a dispatch\<close>

text \<open>
  A reference is valid in a state when its object has been allocated. The keyword arguments
  a caller passes and the client's default parameters only hold valid references: Python
  has no other.
\<close>

definition valid_ref :: "state \<Rightarrow> kwarg \<Rightarrow> bool" where
  "valid_ref st v = (case v of KDict a \<Rightarrow> a < next_addr st | _ \<Rightarrow> True)"

definition valid_kwargs :: "state \<Rightarrow> kwargs \<Rightarrow> bool" where
  "valid_kwargs st kw = list_all (\<lambda>(k, v). valid_ref st v) kw"

definition wf_state :: "state \<Rightarrow> bool" where
  \<comment> \<open>the client's default parameters are a dict (no key twice) of valid references\<close>
  "wf_state st =
     (case requests_params (self st) of
        None \<Rightarrow> True
      | Some rp \<Rightarrow> distinct (map fst rp) \<and> valid_kwargs st rp)"

text \<open>The keyword arguments once the timeout and the client's defaults are in (lines 78 to 82).\<close>

definition effective_kwargs :: "client \<Rightarrow> kwargs \<Rightarrow> kwargs" where
  "effective_kwargs c kw =
     (let kw1 = AList.update ''timeout'' (KVal (SInt 10)) kw
      in case requests_params c of
           None \<Rightarrow> kw1
         | Some rp \<Rightarrow> if rp \<noteq> [] then kwargs_update kw1 rp else kw1)"

text \<open>The mapping a call carries under a keyword, read in the store as it is at the call.\<close>

definition call_dict :: "http_call \<Rightarrow> string \<Rightarrow> pydict" where
  "call_dict c k = (case kwargs_get (call_kwargs c) k of KDict a \<Rightarrow> call_store c a | _ \<Rightarrow> [])"

definition last_call :: "state \<Rightarrow> http_call" where
  "last_call st = last (wire st)"

definition signed_headers :: "client \<Rightarrow> pydict \<Rightarrow> pydict" where
  \<comment> \<open>the header mapping of a signed call whose data mapping is \<open>data\<close>\<close>
  "signed_headers c data = [(''version'', SStr ''2.4''), (''key'', SStr (API_KEY c)),
     (''sign'', SStr (generate_signature c data))]"

text \<open>
  The mapping a dispatch will use under a keyword, as it is in the store before the
  dispatch: the one the caller or the defaults supply, or an empty one.
\<close>

definition input_dict :: "state \<Rightarrow> kwargs \<Rightarrow> string \<Rightarrow> pydict" where
  "input_dict st kw k =
     (case kwargs_get (effective_kwargs (self st) kw) k of KDict a \<Rightarrow> heap st a | _ \<Rightarrow> [])"

definition no_default :: "client \<Rightarrow> string \<Rightarrow> bool" where
  \<comment> \<open>the client's default parameters have no entry under the keyword\<close>
  "no_default c k = (case requests_params c of None \<Rightarrow> True | Some rp \<Rightarrow> map_of rp k = None)"

definition with_secret :: "string \<Rightarrow> state \<Rightarrow> state" where
  \<comment> \<open>the same state, the client holding another secret\<close>
  "with_secret s st = st\<lparr>self := (self st)\<lparr>API_SECRET := s\<rparr>\<rparr>"

text \<open>A client, a store and an environment to run the methods on.\<close>

definition demo_env :: env where
  "demo_env = \<lparr>clock = 1700000000 + 1 / 4,
     network = (\<lambda>c. Inr \<lparr>status_code = 200, json_body = Parsed (JObj [])\<rparr>)\<rparr>"

definition demo_state :: "kwargs option \<Rightarrow> pydict \<Rightarrow> state" where
  \<comment> \<open>one mapping \<open>d\<close> in the store, at address 0\<close>
  "demo_state rp d =
     \<lparr>self = init ''my-key'' ''my-secret'' rp, heap = (\<lambda>_. [])(0 := d), next_addr = 1, wire = []\<rparr>"

section \<open>Properties\<close>

lemma order_params_loop_append: "order_params_loop data acc = acc @ data"
  by (induction data acc rule: order_params_loop.induct) simp_all

lemma order_params_id: "order_params data = data"
  by (simp add: order_params_def order_params_loop_append)

lemma query_string_canonical: "query_string data = spec_canonical_string data"
  unfolding query_string_def order_params_id
  by (induction data rule: spec_canonical_string.induct) (auto simp: neq_Nil_conv)

text \<open>
  C1. For every parameter mapping, the signature of \<open>generate_signature\<close> is the Base64
  encoding of the HMAC-SHA-256 digest, keyed by the UTF-8 bytes of the API secret, of the
  UTF-8 bytes of the canonical string: the \<open>key=value\<close> renderings of the pairs in the
  mapping's own order, nothing sorted, joined by \<open>&\<close>.
\<close>

theorem generate_signature_canonical:
  "generate_signature c data = spec_signature (API_SECRET c) data"
  by (simp add: generate_signature_def spec_signature_def query_string_canonical)

text \<open>
  C4. The URI builder sends category ORDER to \<open>{order_host}/order/{path}\<close>, USER to
  \<open>{order_host}/balance/{path}\<close> and QUOTE to \<open>{quote_host}/{path}\<close> for every path;
  the quote host is another domain than the order and user host; the three examples of the
  specification come out as stated.
\<close>

theorem create_api_uri_routes:
  "create_api_uri path ORDER = ''https://api.sfex.net/order/'' @ path
   \<and> create_api_uri path USER = ''https://api.sfex.net/balance/'' @ path
   \<and> create_api_uri path QUOTE = ''https://q.sfex.net/v1/'' @ path
   \<and> API_URL = ''https://api.sfex.net'' \<and> API_QUOTE = ''https://q.sfex.net/v1''
   \<and> \<not> prefix API_URL (create_api_uri path QUOTE)
   \<and> \<not> prefix API_QUOTE (create_api_uri path ORDER)
   \<and> \<not> prefix API_QUOTE (create_api_uri path USER)
   \<and> create_api_uri ''ticker/BTCUSD'' QUOTE = ''https://q.sfex.net/v1/ticker/BTCUSD''
   \<and> create_api_uri ''create'' ORDER = ''https://api.sfex.net/order/create''
   \<and> create_api_uri ''list'' USER = ''https://api.sfex.net/balance/list''"
  by (simp add: API_URL_def API_ORDER_def API_USER_def API_QUOTE_def)

subsection \<open>Response decoder\<close>

lemma first_decimal_digit_lt: "first_decimal_digit n < 10"
  by (induction n rule: first_decimal_digit.induct) (simp add: first_decimal_digit.simps)

lemma str_nat_nonempty: "str_nat n \<noteq> []"
  by (subst str_nat.simps) simp

lemma hd_str_nat: "hd (str_nat n) = digit_char (first_decimal_digit n)"
proof (induction n rule: str_nat.induct)
  case (1 n)
  show ?case
  proof (cases "n < 10")
    case True
    then show ?thesis
      by (simp add: str_nat.simps [of n] first_decimal_digit.simps [of n])
  next
    case False
    with 1 show ?thesis
      by (simp add: str_nat.simps [of n] first_decimal_digit.simps [of n] str_nat_nonempty)
  qed
qed

lemma digit_char_eq_2: "d < 10 \<Longrightarrow> digit_char d = CHR ''2'' \<longleftrightarrow> d = 2"
proof -
  assume d: "d < 10"
  have "digit_char d = CHR ''2'' \<longleftrightarrow> (of_char (digit_char d) :: nat) = of_char CHR ''2''"
    by (simp only: of_char_eq_iff)
  also have "\<dots> \<longleftrightarrow> d = 2"
    using d by (auto simp: digit_char_def)
  finally show ?thesis .
qed

lemma startswith_one: "startswith s [c] \<longleftrightarrow> s \<noteq> [] \<and> hd s = c"
  by (cases s) (auto simp: startswith_def)

lemma startswith_str_int:
  "startswith (str_int i) ''2'' \<longleftrightarrow> 0 \<le> i \<and> first_decimal_digit (nat i) = 2"
  by (auto simp: startswith_one str_int_def str_nat_nonempty hd_str_nat digit_char_eq_2
      first_decimal_digit_lt)

lemma first_digit_2xx: "200 \<le> n \<Longrightarrow> n \<le> 299 \<Longrightarrow> first_decimal_digit n = 2"
proof -
  assume a: "200 \<le> n" "n \<le> 299"
  then have "n div 10 div 10 = 2" by simp
  with a show ?thesis
    by (simp add: first_decimal_digit.simps [of n] first_decimal_digit.simps [of "n div 10"]
        first_decimal_digit.simps [of 2])
qed

text \<open>
  C6. The response decoder returns the absent result (\<open>JNull\<close>, Python's None) and
  raises nothing for every response whose status code has a first decimal digit other
  than 2; for a status from 200 to 299 it returns the parsed body as it is when parsing
  succeeds, and the absent result when \<^verbatim>\<open>json()\<close> raises ValueError, as it does
  on an empty or unparseable body.
\<close>

theorem handle_response_decoder:
  "(first_decimal_digit (nat \<bar>status_code r\<bar>) \<noteq> 2 \<longrightarrow> handle_response r = JNull)
   \<and> (200 \<le> status_code r \<and> status_code r \<le> 299 \<longrightarrow>
        handle_response r = (case json_body r of Parsed res \<Rightarrow> res | ValueError \<Rightarrow> JNull))"
proof (intro conjI impI)
  assume "first_decimal_digit (nat \<bar>status_code r\<bar>) \<noteq> 2"
  then have "\<not> startswith (str_int (status_code r)) ''2''"
    by (auto simp: startswith_str_int abs_if split: if_splits)
  then show "handle_response r = JNull"
    by (simp add: handle_response_def)
next
  assume "200 \<le> status_code r \<and> status_code r \<le> 299"
  then have "200 \<le> nat (status_code r)" "nat (status_code r) \<le> 299" "0 \<le> status_code r"
    by linarith+
  then have "startswith (str_int (status_code r)) ''2''"
    by (simp add: startswith_str_int first_digit_2xx)
  then show "handle_response r = (case json_body r of Parsed res \<Rightarrow> res | ValueError \<Rightarrow> JNull)"
    by (simp add: handle_response_def)
qed

theorem handle_response_decoder_witness:
  "handle_response \<lparr>status_code = 404, json_body = Parsed (JStr ''x'')\<rparr> = JNull
   \<and> handle_response \<lparr>status_code = 200, json_body = Parsed (JObj [(''ok'', JBool True)])\<rparr>
       = JObj [(''ok'', JBool True)]
   \<and> handle_response \<lparr>status_code = 200, json_body = ValueError\<rparr> = JNull"
  using handle_response_decoder [of "\<lparr>status_code = 404, json_body = Parsed (JStr ''x'')\<rparr>"]
    handle_response_decoder [of "\<lparr>status_code = 200, json_body = Parsed (JObj [(''ok'', JBool True)])\<rparr>"]
    handle_response_decoder [of "\<lparr>status_code = 200, json_body = ValueError\<rparr>"]
  by (simp add: first_decimal_digit.simps)

subsection \<open>Request dispatcher\<close>

lemma request_wire:
  assumes "request meth path t sgnd kw e st = (res, st')"
  shows "\<exists>uri kw' st1. request_prepare path t sgnd kw (clock e) st = ((uri, kw'), st1) \<and>
      st' = st1\<lparr>wire := wire st1 @ [\<lparr>call_method = meth, call_uri = uri, call_kwargs = kw',
        call_store = heap st1\<rparr>]\<rparr>"
  using assms by (auto simp: request_def Let_def split: prod.splits sum.splits)

lemma normalize_arg_cases:
  assumes "normalize_arg v st = (a, st')"
  shows "(v = KDict a \<and> heap st a \<noteq> [] \<and> st' = st)
       \<or> (a = next_addr st \<and> st' = st\<lparr>heap := (heap st)(next_addr st := []), next_addr := Suc (next_addr st)\<rparr>
           \<and> (\<forall>b. v = KDict b \<longrightarrow> heap st b = []))"
  using assms by (auto simp: normalize_arg_def new_dict_def split: kwarg.splits if_splits)

lemma normalize_arg_frame:
  assumes "normalize_arg v st = (a, st')"
  shows "self st' = self st" "wire st' = wire st" "next_addr st \<le> next_addr st'"
    "valid_ref st v \<Longrightarrow> a < next_addr st'"
    "\<And>b. b < next_addr st \<Longrightarrow> heap st' b = heap st b"
  using normalize_arg_cases [OF assms] by (auto simp: valid_ref_def)

lemma request_prepare_eff:
  "request_prepare path t sgnd kw now st =
     (let kw2 = effective_kwargs (self st) kw;
          (d, st1) = normalize_arg (kwargs_get kw2 ''data'') st;
          kw3 = AList.update ''data'' (KDict d) kw2;
          (p, st2) = normalize_arg (kwargs_get kw3 ''params'') st1;
          kw4 = AList.update ''params'' (KDict p) kw3;
          (h, st3) = new_dict [] st2;
          kw5 = AList.update ''headers'' (KDict h) kw4;
          st4 = dict_setitem h ''version'' (SStr ''2.4'') st3;
          st5 = (if sgnd then
                   (let sa = dict_setitem d ''nonce'' (SInt (py_round now)) st4;
                        sb = dict_setitem h ''key'' (SStr (API_KEY (self sa))) sa
                    in dict_setitem h ''sign''
                         (SStr (generate_signature (self sb) (heap sb d))) sb)
                 else st4)
      in ((create_api_uri path t, kw5), st5))"
  by (simp add: request_prepare_def effective_kwargs_def Let_def)

lemma request_prepare_valid:
  assumes v: "valid_ref st (kwargs_get (effective_kwargs (self st) kw) ''data'')"
    and n1: "normalize_arg (kwargs_get (effective_kwargs (self st) kw) ''data'') st = (d, st1)"
    and n2: "normalize_arg (kwargs_get (AList.update ''data'' (KDict d) (effective_kwargs (self st) kw)) ''params'') st1 = (p, st2)"
  shows "request_prepare path t sgnd kw now st =
     ((create_api_uri path t,
       AList.update ''headers'' (KDict (next_addr st2))
         (AList.update ''params'' (KDict p)
           (AList.update ''data'' (KDict d) (effective_kwargs (self st) kw)))),
      (if sgnd then
         st2\<lparr>heap := (heap st2)
                (d := AList.update ''nonce'' (SInt (py_round now)) (heap st2 d),
                 next_addr st2 := signed_headers (self st)
                    (AList.update ''nonce'' (SInt (py_round now)) (heap st2 d))),
             next_addr := Suc (next_addr st2)\<rparr>
       else
         st2\<lparr>heap := (heap st2)(next_addr st2 := [(''version'', SStr ''2.4'')]),
             next_addr := Suc (next_addr st2)\<rparr>))"
proof -
  have "d < next_addr st1"
    using normalize_arg_frame(4) [OF n1] v by simp
  moreover have "next_addr st1 \<le> next_addr st2"
    using normalize_arg_frame(3) [OF n2] .
  ultimately have neq: "d \<noteq> next_addr st2" "next_addr st2 \<noteq> d"
    by simp_all
  have s: "self st2 = self st"
    using normalize_arg_frame(1) [OF n1] normalize_arg_frame(1) [OF n2] by simp
  show ?thesis
    by (simp add: request_prepare_eff n1 n2 Let_def new_dict_def dict_setitem_def neq s
        signed_headers_def)
qed

lemma kwargs_get_update:
  "kwargs_get (AList.update k v kw) k' = (if k' = k then v else kwargs_get kw k')"
  by (simp add: kwargs_get_def update_conv')

lemma map_of_kwargs_update:
  "distinct (map fst other) \<Longrightarrow> map_of (kwargs_update kw other) = map_of kw ++ map_of other"
proof -
  have "distinct (map fst other) \<Longrightarrow>
    map_of (foldl (\<lambda>d (k, v). AList.update k v d) kw other) = map_of kw ++ map_of other" for kw
  proof (induction other arbitrary: kw)
    case Nil
    show ?case by simp
  next
    case (Cons x xs)
    obtain k v where x: "x = (k, v)" by (cases x)
    from Cons.prems have d: "distinct (map fst xs)" and k: "map_of xs k = None"
      by (auto simp: x map_of_eq_None_iff)
    have "map_of (foldl (\<lambda>d (k, v). AList.update k v d) kw (x # xs))
        = map_of (AList.update k v kw) ++ map_of xs"
      using Cons.IH [OF d] by (simp add: x)
    also have "\<dots> = map_of kw ++ map_of (x # xs)"
      using k by (auto simp: x update_conv' map_add_def fun_eq_iff split: option.splits)
    finally show ?case .
  qed
  then show "distinct (map fst other) \<Longrightarrow> ?thesis" by (simp add: kwargs_update_def)
qed

lemma kwargs_get_kwargs_update:
  "distinct (map fst other) \<Longrightarrow> kwargs_get (kwargs_update kw other) k =
     (case map_of other k of Some v \<Rightarrow> v | None \<Rightarrow> kwargs_get kw k)"
  by (simp add: kwargs_get_def map_of_kwargs_update map_add_def split: option.splits)

lemma wf_state_distinct:
  "wf_state st \<Longrightarrow> requests_params (self st) = Some rp \<Longrightarrow> distinct (map fst rp)"
  by (simp add: wf_state_def)

lemma kwargs_get_effective:
  assumes "wf_state st"
  shows "kwargs_get (effective_kwargs (self st) kw) k =
     (case requests_params (self st) of
        None \<Rightarrow> (if k = ''timeout'' then KVal (SInt 10) else kwargs_get kw k)
      | Some rp \<Rightarrow> (case map_of rp k of
           Some v \<Rightarrow> v
         | None \<Rightarrow> (if k = ''timeout'' then KVal (SInt 10) else kwargs_get kw k)))"
proof (cases "requests_params (self st)")
  case None
  then show ?thesis
    by (simp add: effective_kwargs_def Let_def kwargs_get_update)
next
  case (Some rp)
  note d = wf_state_distinct [OF assms Some]
  show ?thesis
  proof (cases "rp = []")
    case True
    with Some show ?thesis
      by (simp add: effective_kwargs_def Let_def kwargs_get_update)
  next
    case False
    with Some show ?thesis
      by (simp add: effective_kwargs_def Let_def kwargs_get_kwargs_update [OF d]
          kwargs_get_update split: option.splits)
  qed
qed

lemma valid_kwargs_get: "valid_kwargs st kw \<Longrightarrow> valid_ref st (kwargs_get kw k)"
proof -
  assume a: "valid_kwargs st kw"
  show ?thesis
  proof (cases "map_of kw k")
    case None
    then show ?thesis by (simp add: kwargs_get_def valid_ref_def)
  next
    case (Some v)
    then have "(k, v) \<in> set kw" by (rule map_of_SomeD)
    with a have "valid_ref st v"
      by (auto simp: valid_kwargs_def list_all_iff)
    with Some show ?thesis by (simp add: kwargs_get_def)
  qed
qed

lemma valid_ref_effective:
  assumes "valid_kwargs st kw" "wf_state st"
  shows "valid_ref st (kwargs_get (effective_kwargs (self st) kw) k)"
proof -
  have t: "valid_ref st (if k = ''timeout'' then KVal (SInt 10) else kwargs_get kw k)"
    using valid_kwargs_get [OF assms(1), of k] by (simp add: valid_ref_def)
  show ?thesis
  proof (cases "requests_params (self st)")
    case None
    with t show ?thesis
      by (simp add: kwargs_get_effective [OF assms(2)])
  next
    case (Some rp)
    with assms(2) have rp: "valid_kwargs st rp" by (simp add: wf_state_def)
    show ?thesis
    proof (cases "map_of rp k")
      case None
      with Some t show ?thesis
        by (simp add: kwargs_get_effective [OF assms(2)])
    next
      case (Some v)
      then have "kwargs_get rp k = v" by (simp add: kwargs_get_def)
      with valid_kwargs_get [OF rp, of k] Some \<open>requests_params (self st) = Some rp\<close>
      show ?thesis by (simp add: kwargs_get_effective [OF assms(2)])
    qed
  qed
qed

lemma py_round_near: "\<bar>of_int (py_round x) - x\<bar> \<le> 1 / 2"
proof -
  define f where "f = \<lfloor>x\<rfloor>"
  have b: "of_int f \<le> x" "x < of_int f + 1"
    unfolding f_def by linarith+
  have "py_round x = (if x - of_int f < 1 / 2 then f else if 1 / 2 < x - of_int f then f + 1
      else if even f then f else f + 1)"
    by (simp add: py_round_def Let_def f_def)
  with b show ?thesis
    by (auto simp: abs_if)
qed

lemma request_result:
  assumes v: "valid_kwargs st kw" and wf: "wf_state st"
    and r: "request meth path t sgnd kw e st = (res, st')"
  obtains d st1 p st2 where
    "normalize_arg (kwargs_get (effective_kwargs (self st) kw) ''data'') st = (d, st1)"
    "normalize_arg (kwargs_get (AList.update ''data'' (KDict d) (effective_kwargs (self st) kw))
        ''params'') st1 = (p, st2)"
    "wire st' = wire st @ [last_call st']"
    "self st' = self st"
    "call_method (last_call st') = meth"
    "call_uri (last_call st') = create_api_uri path t"
    "call_kwargs (last_call st') = AList.update ''headers'' (KDict (next_addr st2))
         (AList.update ''params'' (KDict p)
           (AList.update ''data'' (KDict d) (effective_kwargs (self st) kw)))"
    "call_store (last_call st') = heap st'"
    "heap st' = (if sgnd then (heap st2)
                (d := AList.update ''nonce'' (SInt (py_round (clock e))) (heap st2 d),
                 next_addr st2 := signed_headers (self st)
                    (AList.update ''nonce'' (SInt (py_round (clock e))) (heap st2 d)))
       else (heap st2)(next_addr st2 := [(''version'', SStr ''2.4'')]))"
    "next_addr st' = Suc (next_addr st2)"
proof -
  obtain d st1 where n1:
    "normalize_arg (kwargs_get (effective_kwargs (self st) kw) ''data'') st = (d, st1)"
    by force
  obtain p st2 where n2:
    "normalize_arg (kwargs_get (AList.update ''data'' (KDict d) (effective_kwargs (self st) kw))
        ''params'') st1 = (p, st2)"
    by force
  note prep = request_prepare_valid [OF valid_ref_effective [OF v wf] n1 n2, of path t sgnd "clock e"]
  have w: "wire st2 = wire st"
    using normalize_arg_frame(2) [OF n1] normalize_arg_frame(2) [OF n2] by simp
  have s: "self st2 = self st"
    using normalize_arg_frame(1) [OF n1] normalize_arg_frame(1) [OF n2] by simp
  from r have st': "st' = (snd (request_prepare path t sgnd kw (clock e) st))
      \<lparr>wire := wire st @ [\<lparr>call_method = meth, call_uri = create_api_uri path t,
          call_kwargs = snd (fst (request_prepare path t sgnd kw (clock e) st)),
          call_store = heap (snd (request_prepare path t sgnd kw (clock e) st))\<rparr>]\<rparr>"
    by (auto simp: request_def Let_def prep w split: sum.splits if_splits)
  show thesis
    by (rule that [OF n1 n2]) (simp_all add: st' prep last_call_def s)
qed

lemma request_call:
  assumes v: "valid_kwargs st kw" and wf: "wf_state st"
    and r: "request meth path t sgnd kw e st = (res, st')"
  shows "wire st' = wire st @ [last_call st']"
    and "self st' = self st"
    and "call_method (last_call st') = meth"
    and "call_uri (last_call st') = create_api_uri path t"
    and "call_store (last_call st') = heap st'"
    and "call_dict (last_call st') ''data'' =
          (if sgnd then AList.update ''nonce'' (SInt (py_round (clock e))) (input_dict st kw ''data'')
           else input_dict st kw ''data'')"
    and "call_dict (last_call st') ''headers'' =
          (if sgnd then signed_headers (self st) (call_dict (last_call st') ''data'')
           else [(''version'', SStr ''2.4'')])"
    and "\<exists>h\<ge>next_addr st. kwargs_get (call_kwargs (last_call st')) ''headers'' = KDict h"
    and "\<And>k. k \<noteq> ''data'' \<Longrightarrow> k \<noteq> ''params'' \<Longrightarrow> k \<noteq> ''headers'' \<Longrightarrow>
          kwargs_get (call_kwargs (last_call st')) k = kwargs_get (effective_kwargs (self st) kw) k"
    and "\<not> sgnd \<Longrightarrow> call_dict (last_call st') ''params'' = input_dict st kw ''params''"
    and "\<And>a. kwargs_get (effective_kwargs (self st) kw) ''data'' = KDict a \<Longrightarrow> heap st a \<noteq> [] \<Longrightarrow>
          kwargs_get (call_kwargs (last_call st')) ''data'' = KDict a
          \<and> heap st' a = call_dict (last_call st') ''data''"
    and "\<And>a. kwargs_get (effective_kwargs (self st) kw) ''data'' = KDict a \<Longrightarrow> heap st a = [] \<Longrightarrow>
          kwargs_get (call_kwargs (last_call st')) ''data'' = KDict (next_addr st)
          \<and> heap st' a = []"
    and "\<And>b. b < next_addr st \<Longrightarrow> \<not> sgnd \<or> kwargs_get (call_kwargs (last_call st')) ''data'' \<noteq> KDict b \<Longrightarrow>
          heap st' b = heap st b"
proof -
  let ?eff = "effective_kwargs (self st) kw"
  obtain d st1 p st2 where
    n1: "normalize_arg (kwargs_get ?eff ''data'') st = (d, st1)" and
    n2: "normalize_arg (kwargs_get (AList.update ''data'' (KDict d) ?eff) ''params'') st1 = (p, st2)" and
    w: "wire st' = wire st @ [last_call st']" and
    s: "self st' = self st" and
    m: "call_method (last_call st') = meth" and
    u: "call_uri (last_call st') = create_api_uri path t" and
    k: "call_kwargs (last_call st') = AList.update ''headers'' (KDict (next_addr st2))
         (AList.update ''params'' (KDict p) (AList.update ''data'' (KDict d) ?eff))" and
    cs: "call_store (last_call st') = heap st'" and
    h: "heap st' = (if sgnd then (heap st2)
                (d := AList.update ''nonce'' (SInt (py_round (clock e))) (heap st2 d),
                 next_addr st2 := signed_headers (self st)
                    (AList.update ''nonce'' (SInt (py_round (clock e))) (heap st2 d)))
       else (heap st2)(next_addr st2 := [(''version'', SStr ''2.4'')]))"
    by (rule request_result [OF v wf r]) blast
  from n2 have n2': "normalize_arg (kwargs_get ?eff ''params'') st1 = (p, st2)"
    by (simp add: kwargs_get_update)
  note vd = valid_ref_effective [OF v wf, of "''data''"]
  note vp = valid_ref_effective [OF v wf, of "''params''"]
  note c1 = normalize_arg_cases [OF n1]
  note c2 = normalize_arg_cases [OF n2']
  have le: "next_addr st \<le> next_addr st1" "next_addr st1 \<le> next_addr st2"
    using normalize_arg_frame(3) [OF n1] normalize_arg_frame(3) [OF n2'] by simp_all
  have dlt: "d < next_addr st1"
    using normalize_arg_frame(4) [OF n1 vd] .
  have vp1: "valid_ref st1 (kwargs_get ?eff ''params'')"
    using vp le(1) by (auto simp: valid_ref_def split: kwarg.splits)
  have plt: "p < next_addr st2"
    using normalize_arg_frame(4) [OF n2' vp1] .
  have hd: "heap st2 d = input_dict st kw ''data''"
  proof -
    have "heap st2 d = heap st1 d"
      using normalize_arg_frame(5) [OF n2' dlt] .
    also have "\<dots> = input_dict st kw ''data''"
      using c1 by (auto simp: input_dict_def split: kwarg.splits)
    finally show ?thesis .
  qed
  have hp: "heap st2 p = input_dict st kw ''params''"
    using c1 c2 vp by (auto simp: input_dict_def valid_ref_def split: kwarg.splits)
  have fr: "heap st2 b = heap st b" if "b < next_addr st" for b
    using c1 c2 that le by auto
  show "wire st' = wire st @ [last_call st']" by (rule w)
  show "self st' = self st" by (rule s)
  show "call_method (last_call st') = meth" by (rule m)
  show "call_uri (last_call st') = create_api_uri path t" by (rule u)
  show "call_store (last_call st') = heap st'" by (rule cs)
  show dd: "call_dict (last_call st') ''data'' =
          (if sgnd then AList.update ''nonce'' (SInt (py_round (clock e))) (input_dict st kw ''data'')
           else input_dict st kw ''data'')"
    using dlt le(2) by (simp add: call_dict_def k cs h kwargs_get_update hd)
  show "call_dict (last_call st') ''headers'' =
          (if sgnd then signed_headers (self st) (call_dict (last_call st') ''data'')
           else [(''version'', SStr ''2.4'')])"
    unfolding dd by (simp add: call_dict_def k cs h kwargs_get_update hd)
  show "\<exists>h\<ge>next_addr st. kwargs_get (call_kwargs (last_call st')) ''headers'' = KDict h"
    using le by (simp add: k kwargs_get_update)
  show "kwargs_get (call_kwargs (last_call st')) k = kwargs_get ?eff k"
    if "k \<noteq> ''data''" "k \<noteq> ''params''" "k \<noteq> ''headers''" for k
    using that by (simp add: k kwargs_get_update)
  show "call_dict (last_call st') ''params'' = input_dict st kw ''params''" if "\<not> sgnd"
    using that plt by (simp add: call_dict_def k cs h kwargs_get_update hp)
  show "kwargs_get (call_kwargs (last_call st')) ''data'' = KDict a
          \<and> heap st' a = call_dict (last_call st') ''data''"
    if "kwargs_get ?eff ''data'' = KDict a" "heap st a \<noteq> []" for a
  proof -
    from c1 that have "d = a" by auto
    then show ?thesis
      by (simp add: call_dict_def k cs kwargs_get_update)
  qed
  show "kwargs_get (call_kwargs (last_call st')) ''data'' = KDict (next_addr st) \<and> heap st' a = []"
    if "kwargs_get ?eff ''data'' = KDict a" "heap st a = []" for a
  proof -
    from c1 that have d: "d = next_addr st" by auto
    from vd that have a: "a < next_addr st" by (simp add: valid_ref_def)
    with fr that have "heap st2 a = []" by simp
    with a d le show ?thesis
      by (simp add: k kwargs_get_update h)
  qed
  show "heap st' b = heap st b"
    if "b < next_addr st" "\<not> sgnd \<or> kwargs_get (call_kwargs (last_call st')) ''data'' \<noteq> KDict b" for b
    using that le fr [of b] by (auto simp: k kwargs_get_update h)
qed

lemma floor_demo: "\<lfloor>6800000001 / 4 :: rat\<rfloor> = 1700000000"
  by (rule floor_unique) simp_all

lemma py_round_demo: "py_round (clock demo_env) = 1700000000"
  by (simp add: py_round_def demo_env_def Let_def floor_demo)

lemma py_round_half: "py_round (5 / 2) = 2 \<and> py_round (7 / 2) = 4 \<and> py_round (-1 / 2) = 0"
  by code_simp

text \<open>
  C5. In every dispatch with \<open>signed\<close> true, the call handed to the session carries the
  data mapping with a \<open>nonce\<close> field set to the clock reading in whole seconds (the
  reading rounded, so at most half a second away), a \<open>key\<close> header equal to the API key,
  and a \<open>sign\<close> header equal to the signature of that data mapping, nonce included.
  With \<open>signed\<close> false the data mapping is the one supplied and the headers have
  neither \<open>key\<close> nor \<open>sign\<close>.
\<close>

theorem request_signed_injection:
  assumes "valid_kwargs st kw" and "wf_state st"
    and "request meth path t sgnd kw e st = (res, st')"
  shows "wire st' = wire st @ [last_call st']
    \<and> (sgnd \<longrightarrow>
          call_dict (last_call st') ''data''
            = AList.update ''nonce'' (SInt (py_round (clock e))) (input_dict st kw ''data'')
        \<and> map_of (call_dict (last_call st') ''data'') ''nonce'' = Some (SInt (py_round (clock e)))
        \<and> \<bar>of_int (py_round (clock e)) - clock e\<bar> \<le> 1 / 2
        \<and> map_of (call_dict (last_call st') ''headers'') ''key'' = Some (SStr (API_KEY (self st)))
        \<and> map_of (call_dict (last_call st') ''headers'') ''sign''
            = Some (SStr (generate_signature (self st) (call_dict (last_call st') ''data''))))
    \<and> (\<not> sgnd \<longrightarrow>
          call_dict (last_call st') ''data'' = input_dict st kw ''data''
        \<and> map_of (call_dict (last_call st') ''headers'') ''key'' = None
        \<and> map_of (call_dict (last_call st') ''headers'') ''sign'' = None)"
  using request_call(1,6,7) [OF assms] py_round_near [of "clock e"]
  by (simp add: signed_headers_def update_conv')

theorem request_signed_injection_witness:
  "map_of (call_dict (last_call (snd (request ''post'' ''list'' USER True [(''data'', KDict 0)]
      demo_env (demo_state None [(''page'', SInt 1)])))) ''data'') ''nonce'' = Some (SInt 1700000000)
   \<and> map_of (call_dict (last_call (snd (request ''get'' ''list'' USER False [(''data'', KDict 0)]
      demo_env (demo_state None [(''page'', SInt 1)])))) ''headers'') ''sign'' = None"
proof -
  let ?st = "demo_state None [(''page'', SInt 1)]"
  let ?kw = "[(''data'', KDict 0)]"
  have v: "valid_kwargs ?st ?kw"
    by (simp add: valid_kwargs_def valid_ref_def demo_state_def)
  have w: "wf_state ?st"
    by (simp add: wf_state_def demo_state_def init_def)
  show ?thesis
    using request_signed_injection [OF v w surjective_pairing, of "''post''" "''list''" USER True demo_env]
      request_signed_injection [OF v w surjective_pairing, of "''get''" "''list''" USER False demo_env]
    by (simp add: py_round_demo update_conv')
qed

text \<open>
  C10. In every dispatch the header mapping of the call is exactly \<open>{version: 2.4}\<close>
  when unsigned and \<open>{version: 2.4, key: API key, sign: signature}\<close> when signed. It
  is a new object, so a \<open>headers\<close> entry of the caller's keyword arguments or of the
  client's default parameters is always replaced, while the other defaults (the timeout
  among them) reach the call; without a default, the timeout is 10.
\<close>

theorem request_headers_fixed:
  assumes "valid_kwargs st kw" and "wf_state st"
    and "request meth path t sgnd kw e st = (res, st')"
  shows "call_dict (last_call st') ''headers'' =
      (if sgnd then [(''version'', SStr ''2.4''), (''key'', SStr (API_KEY (self st))),
          (''sign'', SStr (generate_signature (self st) (call_dict (last_call st') ''data'')))]
       else [(''version'', SStr ''2.4'')])
    \<and> (\<exists>h\<ge>next_addr st. kwargs_get (call_kwargs (last_call st')) ''headers'' = KDict h)
    \<and> (\<forall>rp k v. requests_params (self st) = Some rp \<and> map_of rp k = Some v
          \<and> k \<noteq> ''headers'' \<and> k \<noteq> ''data'' \<and> k \<noteq> ''params''
          \<longrightarrow> kwargs_get (call_kwargs (last_call st')) k = v)
    \<and> (no_default (self st) ''timeout''
          \<longrightarrow> kwargs_get (call_kwargs (last_call st')) ''timeout'' = KVal (SInt 10))"
  using request_call(7,8) [OF assms] request_call(9) [OF assms]
  by (auto simp: signed_headers_def kwargs_get_effective [OF assms(2)] no_default_def
      split: option.splits)

theorem request_headers_fixed_witness:
  "call_dict (last_call (snd (request ''get'' ''ticker/BTCUSD'' QUOTE False [(''headers'', KDict 0)]
      demo_env (demo_state (Some [(''headers'', KDict 0), (''timeout'', KVal (SInt 30))])
         [(''X-Trace'', SStr ''1'')])))) ''headers'' = [(''version'', SStr ''2.4'')]
   \<and> kwargs_get (call_kwargs (last_call (snd (request ''get'' ''ticker/BTCUSD'' QUOTE False
      [(''headers'', KDict 0)] demo_env
      (demo_state (Some [(''headers'', KDict 0), (''timeout'', KVal (SInt 30))])
         [(''X-Trace'', SStr ''1'')]))))) ''timeout'' = KVal (SInt 30)"
proof -
  let ?st = "demo_state (Some [(''headers'', KDict 0), (''timeout'', KVal (SInt 30))])
         [(''X-Trace'', SStr ''1'')]"
  let ?kw = "[(''headers'', KDict 0)]"
  have v: "valid_kwargs ?st ?kw"
    by (simp add: valid_kwargs_def valid_ref_def demo_state_def)
  have w: "wf_state ?st"
    by (simp add: wf_state_def demo_state_def init_def valid_kwargs_def valid_ref_def)
  have rp: "requests_params (self ?st) = Some [(''headers'', KDict 0), (''timeout'', KVal (SInt 30))]"
    by (simp add: demo_state_def init_def)
  show ?thesis
    using request_headers_fixed [OF v w surjective_pairing, of "''get''" "''ticker/BTCUSD''" QUOTE False demo_env]
    by (simp add: rp)
qed

lemma kwargs_get_effective_no_default:
  assumes "wf_state st" "no_default (self st) k" "k \<noteq> ''timeout''"
  shows "kwargs_get (effective_kwargs (self st) kw) k = kwargs_get kw k"
  using assms(2,3) by (auto simp: kwargs_get_effective [OF assms(1)] no_default_def split: option.splits)

text \<open>
  Against C8 as stated: a signed dispatch whose caller supplies an empty data mapping
  (as \<^verbatim>\<open>get_user_balance\<close> does) leaves that mapping as it was. An empty mapping
  is falsy, so the dispatcher puts the nonce into a new mapping.
\<close>

theorem signed_dispatch_empty_data_counterexample:
  "valid_kwargs (demo_state None []) [(''data'', KDict 0)] \<and> wf_state (demo_state None [])
   \<and> heap (snd (request ''post'' ''list'' USER True [(''data'', KDict 0)] demo_env (demo_state None []))) 0
     = heap (demo_state None []) 0
   \<and> map_of (heap (snd (request ''post'' ''list'' USER True [(''data'', KDict 0)] demo_env
        (demo_state None []))) 0) ''nonce'' = None"
proof -
  let ?st = "demo_state None []"
  let ?kw = "[(''data'', KDict 0)]"
  have v: "valid_kwargs ?st ?kw"
    by (simp add: valid_kwargs_def valid_ref_def demo_state_def)
  have w: "wf_state ?st"
    by (simp add: wf_state_def demo_state_def init_def)
  have nd: "no_default (self ?st) ''data''"
    by (simp add: no_default_def demo_state_def init_def)
  have e: "kwargs_get (effective_kwargs (self ?st) ?kw) ''data'' = KDict 0"
    unfolding kwargs_get_effective_no_default [OF w nd, simplified]
    by (simp add: kwargs_get_def)
  have h: "heap ?st 0 = []"
    by (simp add: demo_state_def)
  from request_call(12) [OF v w surjective_pairing e h, of "''post''" "''list''" USER True demo_env]
  show ?thesis
    using v w h by simp
qed

text \<open>
  C8, amended. For every signed dispatch in which the caller supplies a data mapping and the
  client's default parameters have no \<open>data\<close> entry: a non-empty mapping is the very
  object sent, and after the call it holds the \<open>nonce\<close> field on top of what it held;
  an empty mapping is left empty, and the call carries a new mapping holding the nonce.
\<close>

theorem signed_dispatch_mutates_data:
  assumes "valid_kwargs st kw" and "wf_state st"
    and "request meth path t True kw e st = (res, st')"
    and "map_of kw ''data'' = Some (KDict a)" and "no_default (self st) ''data''"
  shows "(heap st a \<noteq> [] \<longrightarrow>
            kwargs_get (call_kwargs (last_call st')) ''data'' = KDict a
          \<and> heap st' a = AList.update ''nonce'' (SInt (py_round (clock e))) (heap st a))
    \<and> (heap st a = [] \<longrightarrow>
            heap st' a = []
          \<and> kwargs_get (call_kwargs (last_call st')) ''data'' = KDict (next_addr st)
          \<and> a < next_addr st
          \<and> call_dict (last_call st') ''data'' = [(''nonce'', SInt (py_round (clock e)))])"
proof -
  have e: "kwargs_get (effective_kwargs (self st) kw) ''data'' = KDict a"
    unfolding kwargs_get_effective_no_default [OF assms(2,5), simplified]
    using assms(4) by (simp add: kwargs_get_def)
  have i: "input_dict st kw ''data'' = heap st a"
    by (simp add: input_dict_def e)
  have a: "a < next_addr st"
    using valid_ref_effective [OF assms(1,2), of "''data''"] by (simp add: e valid_ref_def)
  show ?thesis
    using request_call(11) [OF assms(1-3) e] request_call(12) [OF assms(1-3) e]
      request_call(6) [OF assms(1-3)] a
    by (auto simp: i)
qed

theorem signed_dispatch_mutates_data_witness:
  "heap (snd (request ''post'' ''history'' ORDER True [(''data'', KDict 0)] demo_env
      (demo_state None [(''page'', SInt 1)]))) 0 = [(''page'', SInt 1), (''nonce'', SInt 1700000000)]"
proof -
  let ?st = "demo_state None [(''page'', SInt 1)]"
  let ?kw = "[(''data'', KDict 0)]"
  have v: "valid_kwargs ?st ?kw"
    by (simp add: valid_kwargs_def valid_ref_def demo_state_def)
  have w: "wf_state ?st"
    by (simp add: wf_state_def demo_state_def init_def)
  have nd: "no_default (self ?st) ''data''"
    by (simp add: no_default_def demo_state_def init_def)
  have m: "map_of ?kw ''data'' = Some (KDict 0)"
    by simp
  have h: "heap ?st 0 = [(''page'', SInt 1)]"
    by (simp add: demo_state_def)
  show ?thesis
    using signed_dispatch_mutates_data [OF v w surjective_pairing m nd, of "''post''" "''history''" ORDER demo_env]
    by (simp add: h py_round_demo)
qed

end
